theory Spec2Isabelle
  imports Main "HOL-Library.Word"
begin

section \<open>ShaggyDog: the breed extractor and the three-stage transformation chain\<close>

text \<open>
  A shallow embedding of \<^verbatim>\<open>generate_transformation.py\<close> (and of the stand-alone
  \<^verbatim>\<open>analyze_dog_breed.py\<close>). Python values are modelled as follows.
  \<^item> A \<^verbatim>\<open>str\<close> is the list of its Unicode code points (\<open>pystr\<close>); \<open>lit\<close> turns an
    ASCII literal into one.
  \<^item> \<^verbatim>\<open>bytes\<close> is a list of 8-bit words.
  \<^item> A raised exception is the \<open>Inl\<close> of a sum; every exception carries what
    \<^verbatim>\<open>str(e)\<close> yields for it.
  \<^item> The remote endpoint, the file system and the log of issued requests are an
    explicit state that every effectful function takes and returns.
  \<^item> \<^verbatim>\<open>print\<close> calls have no effect on any value or on control flow and are left out.
\<close>

subsection \<open>Strings and exceptions\<close>

type_synonym pystr = "nat list"

type_synonym bytes = "8 word list"

definition lit :: "string \<Rightarrow> pystr" where
  "lit s = map of_char s"

datatype py_exn =
    Exception pystr
  | IndexError pystr
  | TypeError pystr
  | ValueError pystr
  | BinasciiError pystr
  | OSError pystr
  | ApiError pystr

text \<open>\<^verbatim>\<open>str(e)\<close>: the message the exception carries.\<close>

fun str_exn :: "py_exn \<Rightarrow> pystr" where
  "str_exn (Exception m) = m"
| "str_exn (IndexError m) = m"
| "str_exn (TypeError m) = m"
| "str_exn (ValueError m) = m"
| "str_exn (BinasciiError m) = m"
| "str_exn (OSError m) = m"
| "str_exn (ApiError m) = m"

subsection \<open>\<^verbatim>\<open>str.split()\<close> and \<^verbatim>\<open>extract_dog_breed\<close>\<close>

text \<open>
  \<^verbatim>\<open>str.split()\<close> with no argument: skip a run of whitespace, cut the maximal run of
  non-whitespace that follows, repeat. Which code points are whitespace
  (\<^verbatim>\<open>str.isspace\<close>) and which are uppercase (\<^verbatim>\<open>str.isupper\<close> on one character) is
  decided by the Unicode tables of the Python runtime; the functions take both tables
  as parameters \<open>sp\<close> and \<open>up\<close>, so the theorems hold for every such table.
\<close>

function split_ws :: "(nat \<Rightarrow> bool) \<Rightarrow> pystr \<Rightarrow> pystr list" where
  "split_ws sp [] = []"
| "split_ws sp (c # cs) =
     (if sp c then split_ws sp cs
      else takeWhile (\<lambda>x. \<not> sp x) (c # cs)
             # split_ws sp (dropWhile (\<lambda>x. \<not> sp x) (c # cs)))"
  by pat_completeness auto
termination
  by (relation "measure (\<lambda>(sp, s). length s)")
     (auto simp: less_Suc_eq_le length_dropWhile_le)

text \<open>
  \<^verbatim>\<open>
  words = breed_description.split()
  if len(words) >= 2:
      if words[1][0].isupper() or len(words) == 2:
          return f"{words[0]} {words[1]}"
  return words[0] if words else "dog"
  \<close>
  \<^verbatim>\<open>words[1][0]\<close> is evaluated before \<^verbatim>\<open>len(words) == 2\<close> and raises IndexError on an
  empty \<^verbatim>\<open>words[1]\<close>; the model keeps that branch.
\<close>

definition extract_dog_breed ::
    "(nat \<Rightarrow> bool) \<Rightarrow> (nat \<Rightarrow> bool) \<Rightarrow> pystr \<Rightarrow> py_exn + pystr" where
  "extract_dog_breed sp up breed_description =
     (let words = split_ws sp breed_description;
          last_return = Inr (if words \<noteq> [] then words ! 0 else lit ''dog'')
      in if 2 \<le> length words then
           (case words ! 1 of
              [] \<Rightarrow> Inl (IndexError (lit ''string index out of range''))
            | c # _ \<Rightarrow>
                if up c \<or> length words = 2
                then Inr (words ! 0 @ lit '' '' @ words ! 1)
                else last_return)
         else last_return)"

text \<open>
  The reference algorithm, written from the specification's words: tokens are cut by a
  left-to-right scan that collects the current token and emits it at each whitespace.
\<close>

fun tokens_scan :: "(nat \<Rightarrow> bool) \<Rightarrow> pystr \<Rightarrow> pystr \<Rightarrow> pystr list" where
  "tokens_scan sp cur [] = (if cur = [] then [] else [cur])"
| "tokens_scan sp cur (c # cs) =
     (if sp c then (if cur = [] then tokens_scan sp [] cs else cur # tokens_scan sp [] cs)
      else tokens_scan sp (cur @ [c]) cs)"

definition begins_upper :: "(nat \<Rightarrow> bool) \<Rightarrow> pystr \<Rightarrow> bool" where
  "begins_upper up tok = (case tok of [] \<Rightarrow> False | c # _ \<Rightarrow> up c)"

fun label_of_tokens :: "(nat \<Rightarrow> bool) \<Rightarrow> pystr list \<Rightarrow> pystr" where
  "label_of_tokens up (t1 # t2 # rest) =
     (if begins_upper up t2 \<or> rest = [] then t1 @ lit '' '' @ t2 else t1)"
| "label_of_tokens up [t1] = t1"
| "label_of_tokens up [] = lit ''dog''"

definition extract_reference :: "(nat \<Rightarrow> bool) \<Rightarrow> (nat \<Rightarrow> bool) \<Rightarrow> pystr \<Rightarrow> pystr" where
  "extract_reference sp up description = label_of_tokens up (tokens_scan sp [] description)"

text \<open>
  The two classification tables on the ASCII range, where every Python version agrees:
  whitespace is TAB, LF, VT, FF, CR, FS, GS, RS, US and SPACE; uppercase is A to Z.
\<close>

definition isspace_ascii :: "nat \<Rightarrow> bool" where
  "isspace_ascii c = ((9 \<le> c \<and> c \<le> 13) \<or> (28 \<le> c \<and> c \<le> 32))"

definition isupper_ascii :: "nat \<Rightarrow> bool" where
  "isupper_ascii c = (65 \<le> c \<and> c \<le> 90)"

definition ascii_tables :: "(nat \<Rightarrow> bool) \<Rightarrow> (nat \<Rightarrow> bool) \<Rightarrow> bool" where
  "ascii_tables sp up = (\<forall>c<128. sp c = isspace_ascii c \<and> up c = isupper_ascii c)"

subsection \<open>Base64: \<^verbatim>\<open>base64.b64encode\<close> and \<^verbatim>\<open>base64.b64decode\<close>\<close>

text \<open>
  The standard alphabet of RFC 4648 with \<open>=\<close> (code point 61) as padding.
  \<open>b64encode\<close> turns each group of three bytes into four characters and pads the last
  group. \<open>a2b_base64\<close> is the decoding loop of \<^verbatim>\<open>binascii.a2b_base64\<close> that
  \<^verbatim>\<open>b64decode\<close> runs with \<^verbatim>\<open>validate=False\<close>: characters outside the alphabet are
  skipped, a complete pad sequence ends the input, and data left in an incomplete
  group is an error (the message for a single left-over character is abridged). The
  shifts and ORs of the C loop combine disjoint bit ranges and are written as
  multiplications and additions.
\<close>

definition b64_char :: "nat \<Rightarrow> nat" where
  "b64_char v =
     (if v < 26 then 65 + v
      else if v < 52 then 97 + (v - 26)
      else if v < 62 then 48 + (v - 52)
      else if v = 62 then 43 else 47)"

definition b64_index :: "nat \<Rightarrow> nat option" where
  "b64_index c =
     (if 65 \<le> c \<and> c \<le> 90 then Some (c - 65)
      else if 97 \<le> c \<and> c \<le> 122 then Some (c - 71)
      else if 48 \<le> c \<and> c \<le> 57 then Some (c + 4)
      else if c = 43 then Some 62
      else if c = 47 then Some 63
      else None)"

fun b64encode :: "bytes \<Rightarrow> pystr" where
  "b64encode (a # b # c # rest) =
     [b64_char (unat a div 4),
      b64_char (unat a mod 4 * 16 + unat b div 16),
      b64_char (unat b mod 16 * 4 + unat c div 64),
      b64_char (unat c mod 64)] @ b64encode rest"
| "b64encode [a, b] =
     [b64_char (unat a div 4),
      b64_char (unat a mod 4 * 16 + unat b div 16),
      b64_char (unat b mod 16 * 4),
      61]"
| "b64encode [a] =
     [b64_char (unat a div 4),
      b64_char (unat a mod 4 * 16),
      61, 61]"
| "b64encode [] = []"

definition byte :: "nat \<Rightarrow> 8 word" where
  "byte n = of_nat n"

fun a2b_base64 :: "pystr \<Rightarrow> nat \<Rightarrow> nat \<Rightarrow> nat \<Rightarrow> bytes \<Rightarrow> py_exn + bytes" where
  "a2b_base64 [] quad_pos leftchar pads out =
     (if quad_pos \<noteq> 0
      then Inl (BinasciiError
             (if quad_pos = 1 then lit ''Invalid base64-encoded string''
              else lit ''Incorrect padding''))
      else Inr out)"
| "a2b_base64 (this_ch # rest) quad_pos leftchar pads out =
     (if this_ch = 61 then
        (if 2 \<le> quad_pos then
           (if 4 \<le> quad_pos + (pads + 1) then Inr out
            else a2b_base64 rest quad_pos leftchar (pads + 1) out)
         else a2b_base64 rest quad_pos leftchar pads out)
      else
        (case b64_index this_ch of
           None \<Rightarrow> a2b_base64 rest quad_pos leftchar pads out
         | Some v \<Rightarrow>
             (if quad_pos = 0 then a2b_base64 rest 1 v 0 out
              else if quad_pos = 1 then
                a2b_base64 rest 2 (v mod 16) 0 (out @ [byte (leftchar * 4 + v div 16)])
              else if quad_pos = 2 then
                a2b_base64 rest 3 (v mod 4) 0 (out @ [byte (leftchar * 16 + v div 4)])
              else
                a2b_base64 rest 0 0 0 (out @ [byte (leftchar * 64 + v)]))))"

text \<open>
  A payload read from a response is either \<^verbatim>\<open>None\<close> or a string. \<^verbatim>\<open>b64decode\<close>
  raises TypeError on \<^verbatim>\<open>None\<close>, ValueError on a string with a non-ASCII character,
  and otherwise runs the decoding loop.
\<close>

datatype pyval = PyNone | PyStr pystr

definition b64decode :: "pyval \<Rightarrow> py_exn + bytes" where
  "b64decode s =
     (case s of
        PyNone \<Rightarrow>
          Inl (TypeError (lit ''argument should be a bytes-like object or ASCII string, not ''
                 @ [39] @ lit ''NoneType'' @ [39]))
      | PyStr t \<Rightarrow>
          if list_ex (\<lambda>c. 128 \<le> c) t
          then Inl (ValueError (lit ''string argument should contain only ASCII characters''))
          else a2b_base64 t 0 0 0 [])"

subsection \<open>Requests, responses, the endpoint and the file system\<close>

text \<open>
  The keyword arguments of \<^verbatim>\<open>client.responses.create\<close>. \<open>req_input\<close> is either a list
  of messages with typed content parts or a bare prompt string;
  \<open>req_previous_response_id\<close> and \<open>req_tools\<close> are \<open>None\<close> when the argument is
  not passed.
\<close>

datatype content_part = input_text pystr | input_image pystr

record message =
  role :: pystr
  content :: "content_part list"

datatype request_input = Messages "message list" | Prompt pystr

record tool =
  tool_type :: pystr
  tool_action :: pystr
  input_fidelity :: pystr

record request =
  req_model :: pystr
  req_previous_response_id :: "pystr option"
  req_input :: request_input
  req_tools :: "tool list option"

text \<open>
  An item of \<^verbatim>\<open>response.output\<close> is an object of any kind: its attributes
  \<^verbatim>\<open>type\<close> and \<^verbatim>\<open>result\<close> may be absent (\<open>None\<close> here, \<^verbatim>\<open>hasattr\<close> false) or
  present with a value, which for \<^verbatim>\<open>result\<close> may itself be Python's \<^verbatim>\<open>None\<close>.
\<close>

record output_item =
  item_type :: "pyval option"
  item_result :: "pyval option"

record response =
  resp_id :: pystr
  resp_output :: "output_item list"
  resp_output_text :: pystr

datatype node = Dir | File bytes

record world =
  calls :: "request list"
  fs :: "pystr \<Rightarrow> node option"

text \<open>
  The endpoint answers a request, given the requests issued before it, with a response
  or with the message of the exception the client library raises (transport,
  authentication or endpoint-side).
\<close>

type_synonym endpoint = "request list \<Rightarrow> request \<Rightarrow> pystr + response"

definition responses_create ::
    "endpoint \<Rightarrow> world \<Rightarrow> request \<Rightarrow> (py_exn + response) \<times> world" where
  "responses_create ep w req =
     ((case ep (calls w) req of Inl m \<Rightarrow> Inl (ApiError m) | Inr r \<Rightarrow> Inr r),
      w\<lparr>calls := calls w @ [req]\<rparr>)"

text \<open>
  File operations. Paths are compared as strings; a path names a directory, a file or
  nothing. \<open>read_file\<close> is \<^verbatim>\<open>open(p, "rb").read()\<close>, \<open>makedirs\<close> is
  \<^verbatim>\<open>os.makedirs(d, exist_ok=True)\<close>, \<open>open_wb\<close> is \<^verbatim>\<open>open(p, "wb")\<close>, which truncates,
  and \<open>path_join\<close> is \<^verbatim>\<open>os.path.join\<close> of \<^verbatim>\<open>posixpath\<close> with two arguments.
\<close>

definition os_error :: "string \<Rightarrow> pystr \<Rightarrow> py_exn" where
  "os_error text p = OSError (lit text @ lit '': '' @ [39] @ p @ [39])"

definition read_file :: "world \<Rightarrow> pystr \<Rightarrow> py_exn + bytes" where
  "read_file w p =
     (case fs w p of
        None \<Rightarrow> Inl (os_error ''[Errno 2] No such file or directory'' p)
      | Some Dir \<Rightarrow> Inl (os_error ''[Errno 21] Is a directory'' p)
      | Some (File data) \<Rightarrow> Inr data)"

definition makedirs :: "world \<Rightarrow> pystr \<Rightarrow> py_exn + world" where
  "makedirs w d =
     (case fs w d of
        Some (File _) \<Rightarrow> Inl (os_error ''[Errno 17] File exists'' d)
      | _ \<Rightarrow> Inr (w\<lparr>fs := (fs w)(d \<mapsto> Dir)\<rparr>))"

definition open_wb :: "world \<Rightarrow> pystr \<Rightarrow> py_exn + world" where
  "open_wb w p =
     (case fs w p of
        Some Dir \<Rightarrow> Inl (os_error ''[Errno 21] Is a directory'' p)
      | _ \<Rightarrow> Inr (w\<lparr>fs := (fs w)(p \<mapsto> File [])\<rparr>))"

definition path_join :: "pystr \<Rightarrow> pystr \<Rightarrow> pystr" where
  "path_join a b =
     (if b \<noteq> [] \<and> hd b = 47 then b
      else if a = [] \<or> last a = 47 then a @ b
      else a @ [47] @ b)"

subsection \<open>\<^verbatim>\<open>analyze_dog_breed\<close>, in its two copies\<close>

definition classify_prompt :: pystr where
  "classify_prompt =
     lit ''Analyze this human face and determine which specific dog breed this person''
     @ [39] @
     lit ''s facial features, structure, and overall appearance most closely resembles. Consider factors like face shape, eye shape, nose structure, ear position, and overall facial proportions. Respond with just the dog breed name and a brief one-sentence explanation of why.''"

definition data_uri :: "pystr \<Rightarrow> pystr" where
  "data_uri base64_image = lit ''data:image/jpeg;base64,'' @ base64_image"

definition classify_request :: "pystr \<Rightarrow> request" where
  "classify_request base64_image =
     \<lparr>req_model = lit ''gpt-5-mini-2025-08-07'',
      req_previous_response_id = None,
      req_input = Messages
        [\<lparr>role = lit ''user'',
          content = [input_text classify_prompt, input_image (data_uri base64_image)]\<rparr>],
      req_tools = None\<rparr>"

text \<open>
  \<^verbatim>\<open>generate_transformation.py\<close>, lines 13 to 43: the whole body is inside
  \<^verbatim>\<open>try\<close>, and the handler raises
  \<^verbatim>\<open>Exception(f"Error analyzing dog breed: {str(e)}")\<close>.
\<close>

definition analyze_dog_breed ::
    "endpoint \<Rightarrow> world \<Rightarrow> pystr \<Rightarrow> (py_exn + pystr) \<times> world" where
  "analyze_dog_breed ep w image_path =
     (case read_file w image_path of
        Inl e \<Rightarrow> (Inl (Exception (lit ''Error analyzing dog breed: '' @ str_exn e)), w)
      | Inr image_data \<Rightarrow>
          (case responses_create ep w (classify_request (b64encode image_data)) of
             (Inl e, w') \<Rightarrow>
               (Inl (Exception (lit ''Error analyzing dog breed: '' @ str_exn e)), w')
           | (Inr response, w') \<Rightarrow> (Inr (resp_output_text response), w')))"

text \<open>
  \<^verbatim>\<open>analyze_dog_breed.py\<close>, lines 12 to 42: the same body, but the handler is
  \<^verbatim>\<open>return f"Error: {str(e)}"\<close>.
\<close>

definition analyze_dog_breed_standalone ::
    "endpoint \<Rightarrow> world \<Rightarrow> pystr \<Rightarrow> (py_exn + pystr) \<times> world" where
  "analyze_dog_breed_standalone ep w image_path =
     (case read_file w image_path of
        Inl e \<Rightarrow> (Inr (lit ''Error: '' @ str_exn e), w)
      | Inr image_data \<Rightarrow>
          (case responses_create ep w (classify_request (b64encode image_data)) of
             (Inl e, w') \<Rightarrow> (Inr (lit ''Error: '' @ str_exn e), w')
           | (Inr response, w') \<Rightarrow> (Inr (resp_output_text response), w')))"

subsection \<open>\<^verbatim>\<open>generate_progressive_images\<close>\<close>

definition prompt1 :: "pystr \<Rightarrow> pystr" where
  "prompt1 dog_breed =
     lit ''Transform this person'' @ [39] @ lit ''s face to have very subtle '' @ dog_breed
     @ lit '' dog-like features - slightly more pronounced nose, subtle changes around the eyes and mouth, but maintain the human appearance overall. Keep the same pose, expression, and lighting.''"

definition prompt2 :: "pystr \<Rightarrow> pystr" where
  "prompt2 dog_breed =
     lit ''Transform this image to be halfway between human and '' @ dog_breed
     @ lit '' dog - blend human and canine features more prominently. The face should show clear dog characteristics while maintaining some human-like structure. Keep the same pose and composition.''"

definition prompt3 :: "pystr \<Rightarrow> pystr" where
  "prompt3 dog_breed =
     lit ''Transform this into a realistic '' @ dog_breed
     @ lit '' dog portrait that maintains the same pose, expression, and composition as the original person. The dog should have the same general facial structure and expression, but as a fully formed ''
     @ dog_breed @ lit '' dog.''"

definition image_tool :: "string \<Rightarrow> tool" where
  "image_tool act =
     \<lparr>tool_type = lit ''image_generation'', tool_action = lit act,
      input_fidelity = lit ''high''\<rparr>"

text \<open>The three calls of lines 84 to 97, 120 to 125 and 146 to 151.\<close>

definition stage1_request :: "pystr \<Rightarrow> pystr \<Rightarrow> request" where
  "stage1_request base64_image dog_breed =
     \<lparr>req_model = lit ''gpt-5'',
      req_previous_response_id = None,
      req_input = Messages
        [\<lparr>role = lit ''user'',
          content = [input_text (prompt1 dog_breed), input_image (data_uri base64_image)]\<rparr>],
      req_tools = Some [image_tool ''auto'']\<rparr>"

definition stage2_request :: "pystr \<Rightarrow> pystr \<Rightarrow> request" where
  "stage2_request response1_id dog_breed =
     \<lparr>req_model = lit ''gpt-5'',
      req_previous_response_id = Some response1_id,
      req_input = Prompt (prompt2 dog_breed),
      req_tools = Some [image_tool ''edit'']\<rparr>"

definition stage3_request :: "pystr \<Rightarrow> pystr \<Rightarrow> request" where
  "stage3_request response2_id dog_breed =
     \<lparr>req_model = lit ''gpt-5'',
      req_previous_response_id = Some response2_id,
      req_input = Prompt (prompt3 dog_breed),
      req_tools = Some [image_tool ''edit'']\<rparr>"

text \<open>
  The list comprehension written three times in the source (lines 103 to 107, 128 to
  132, 166 to 170):
  \<^verbatim>\<open>
  [output.result for output in response.output
   if hasattr(output, 'type') and output.type == "image_generation_call"
      and hasattr(output, 'result')]
  \<close>
  The filter asks whether the attribute \<^verbatim>\<open>result\<close> exists, not what its value is.
\<close>

definition is_image_call :: "output_item \<Rightarrow> bool" where
  "is_image_call out =
     (item_type out = Some (PyStr (lit ''image_generation_call'')) \<and> item_result out \<noteq> None)"

definition image_results :: "response \<Rightarrow> pyval list" where
  "image_results r = map (\<lambda>out. the (item_result out)) (filter is_image_call (resp_output r))"

text \<open>
  Lines 72 to 180: read and encode the image, then the three stages. Each stage issues
  its request, collects the image results of the response, raises when there is none
  and otherwise appends the first one, under the stage's file name, to
  \<^verbatim>\<open>generated_images\<close>. The \<^verbatim>\<open>try\<close> blocks around the calls of stages 1 and 3 print
  and re-raise.
\<close>

definition transform ::
    "endpoint \<Rightarrow> world \<Rightarrow> pystr \<Rightarrow> pystr \<Rightarrow> (py_exn + (pystr \<times> pyval) list) \<times> world" where
  "transform ep w image_path dog_breed =
     (case read_file w image_path of
        Inl e \<Rightarrow> (Inl e, w)
      | Inr image_data \<Rightarrow>
     (case responses_create ep w (stage1_request (b64encode image_data) dog_breed) of
        (Inl e, w1) \<Rightarrow> (Inl e, w1)
      | (Inr response1, w1) \<Rightarrow>
     (case image_results response1 of
        [] \<Rightarrow> (Inl (Exception (lit ''Failed to generate image 1'')), w1)
      | image1_base64 # _ \<Rightarrow>
     (case responses_create ep w1 (stage2_request (resp_id response1) dog_breed) of
        (Inl e, w2) \<Rightarrow> (Inl e, w2)
      | (Inr response2, w2) \<Rightarrow>
     (case image_results response2 of
        [] \<Rightarrow> (Inl (Exception (lit ''Failed to generate image 2'')), w2)
      | image2_base64 # _ \<Rightarrow>
     (case responses_create ep w2 (stage3_request (resp_id response2) dog_breed) of
        (Inl e, w3) \<Rightarrow> (Inl e, w3)
      | (Inr response3, w3) \<Rightarrow>
     (case image_results response3 of
        [] \<Rightarrow> (Inl (Exception (lit ''Failed to generate image 3'')), w3)
      | image3_base64 # _ \<Rightarrow>
          (Inr [(lit ''image1_transition.png'', image1_base64),
                (lit ''image2_transition.png'', image2_base64),
                (lit ''image3_final_dog.png'', image3_base64)], w3))))))))"

text \<open>
  Lines 183 to 201. \<^verbatim>\<open>open(filepath, "wb")\<close> truncates the file before
  \<^verbatim>\<open>b64decode\<close> runs, so a payload that does not decode leaves an empty file behind;
  files written before a failure stay.
\<close>

definition write_image :: "world \<Rightarrow> pystr \<Rightarrow> pyval \<Rightarrow> (py_exn + unit) \<times> world" where
  "write_image w filepath image_base64 =
     (case open_wb w filepath of
        Inl e \<Rightarrow> (Inl e, w)
      | Inr w1 \<Rightarrow>
          (case b64decode image_base64 of
             Inl e \<Rightarrow> (Inl e, w1)
           | Inr data \<Rightarrow> (Inr (), w1\<lparr>fs := (fs w1)(filepath \<mapsto> File data)\<rparr>)))"

fun save_under ::
    "world \<Rightarrow> pystr \<Rightarrow> (pystr \<times> pyval) list \<Rightarrow> (pystr \<times> pyval) list
       \<Rightarrow> (py_exn + (pystr \<times> pyval) list) \<times> world" where
  "save_under w output_dir [] saved_paths = (Inr saved_paths, w)"
| "save_under w output_dir ((filename, image_base64) # rest) saved_paths =
     (case write_image w (path_join output_dir filename) image_base64 of
        (Inl e, w') \<Rightarrow> (Inl e, w')
      | (Inr _, w') \<Rightarrow>
          save_under w' output_dir rest
            (saved_paths @ [(path_join output_dir filename, image_base64)]))"

fun save_here :: "world \<Rightarrow> (pystr \<times> pyval) list \<Rightarrow> (py_exn + unit) \<times> world" where
  "save_here w [] = (Inr (), w)"
| "save_here w ((filename, image_base64) # rest) =
     (case write_image w filename image_base64 of
        (Inl e, w') \<Rightarrow> (Inl e, w')
      | (Inr _, w') \<Rightarrow> save_here w' rest)"

text \<open>\<^verbatim>\<open>if output_dir:\<close> is false for \<^verbatim>\<open>None\<close> and for the empty string.\<close>

definition persist ::
    "world \<Rightarrow> pystr option \<Rightarrow> (pystr \<times> pyval) list
       \<Rightarrow> (py_exn + (pystr \<times> pyval) list) \<times> world" where
  "persist w output_dir generated_images =
     (case output_dir of
        Some d \<Rightarrow>
          if d \<noteq> [] then
            (case makedirs w d of
               Inl e \<Rightarrow> (Inl e, w)
             | Inr w1 \<Rightarrow> save_under w1 d generated_images [])
          else
            (case save_here w generated_images of
               (Inl e, w') \<Rightarrow> (Inl e, w')
             | (Inr _, w') \<Rightarrow> (Inr generated_images, w'))
      | None \<Rightarrow>
          (case save_here w generated_images of
             (Inl e, w') \<Rightarrow> (Inl e, w')
           | (Inr _, w') \<Rightarrow> (Inr generated_images, w')))"

text \<open>
  The function itself: \<open>transform\<close> and \<open>persist\<close> are the two parts of its body, in the
  order of the source; a failure of the first part is raised before anything is saved.
\<close>

definition generate_progressive_images ::
    "endpoint \<Rightarrow> world \<Rightarrow> pystr \<Rightarrow> pystr \<Rightarrow> pystr option
       \<Rightarrow> (py_exn + (pystr \<times> pyval) list) \<times> world" where
  "generate_progressive_images ep w image_path dog_breed output_dir =
     (case transform ep w image_path dog_breed of
        (Inl e, w') \<Rightarrow> (Inl e, w')
      | (Inr generated_images, w') \<Rightarrow> persist w' output_dir generated_images)"

subsection \<open>The specification's notions, and concrete inputs\<close>

text \<open>
  The specification counts an output item as a valid result when it is tagged as an
  image generation and carries a non-empty result payload.
\<close>

definition carries_nonempty_result :: "output_item \<Rightarrow> bool" where
  "carries_nonempty_result out =
     (item_type out = Some (PyStr (lit ''image_generation_call'')) \<and>
      (case item_result out of Some (PyStr s) \<Rightarrow> s \<noteq> [] | _ \<Rightarrow> False))"

text \<open>
  A world with no request issued yet and one image file, response items and responses,
  and endpoints that answer the n-th request with the n-th entry of a list and refuse
  any further one.
\<close>

definition world0 :: world where
  "world0 = \<lparr>calls = [], fs = [lit ''me.jpg'' \<mapsto> File [1, 2, 3]]\<rparr>"

definition image_item :: "pyval \<Rightarrow> output_item" where
  "image_item v =
     \<lparr>item_type = Some (PyStr (lit ''image_generation_call'')), item_result = Some v\<rparr>"

definition reply :: "string \<Rightarrow> output_item list \<Rightarrow> response" where
  "reply ident items = \<lparr>resp_id = lit ident, resp_output = items, resp_output_text = []\<rparr>"

definition endpoint_seq :: "(pystr + response) list \<Rightarrow> endpoint" where
  "endpoint_seq answers history req =
     (if length history < length answers then answers ! length history
      else Inl (lit ''connection refused''))"


definition reasoning_item :: output_item where
  "reasoning_item = \<lparr>item_type = Some (PyStr (lit ''reasoning'')), item_result = None\<rparr>"

definition reply1 :: response where
  "reply1 = reply ''resp_1''
     [reasoning_item, image_item (PyStr (lit ''QQ=='')), image_item (PyStr (lit ''Qg==''))]"

definition reply2 :: response where
  "reply2 = reply ''resp_2''
     [reasoning_item, image_item (PyStr (lit ''Qw=='')), image_item (PyStr (lit ''RA==''))]"

definition reply3 :: response where
  "reply3 = reply ''resp_3''
     [reasoning_item, image_item (PyStr (lit ''RQ=='')), image_item (PyStr (lit ''Rg==''))]"

definition endpoint_ok :: endpoint where
  "endpoint_ok = endpoint_seq [Inr reply1, Inr reply2, Inr reply3]"

section \<open>Properties of the breed extractor\<close>

lemma split_ws_no_empty: "[] \<notin> set (split_ws sp s)"
  by (induction sp s rule: split_ws.induct) auto

lemma split_ws_no_space: "t \<in> set (split_ws sp s) \<Longrightarrow> c \<in> set t \<Longrightarrow> \<not> sp c"
proof (induction sp s arbitrary: t rule: split_ws.induct)
  case (1 sp)
  then show ?case by simp
next
  case (2 sp d ds)
  show ?case
  proof (cases "sp d")
    case True
    with 2 show ?thesis by simp
  next
    case False
    from 2(3) False
    consider "t = takeWhile (\<lambda>x. \<not> sp x) (d # ds)"
      | "t \<in> set (split_ws sp (dropWhile (\<lambda>x. \<not> sp x) (d # ds)))"
      by auto
    then show ?thesis
    proof cases
      case 1
      with 2(4) show ?thesis by (auto dest: set_takeWhileD)
    next
      case 2
      with "2.IH"(2) [OF False 2] "2.prems"(2) show ?thesis by blast
    qed
  qed
qed

lemma tokens_scan_split:
  "tokens_scan sp cur s =
     (if cur = [] then split_ws sp s
      else (cur @ takeWhile (\<lambda>x. \<not> sp x) s) # split_ws sp (dropWhile (\<lambda>x. \<not> sp x) s))"
proof (induction s arbitrary: cur)
  case Nil
  then show ?case by simp
next
  case (Cons c cs)
  show ?case
  proof (cases "sp c")
    case True
    then show ?thesis by (simp add: Cons.IH)
  next
    case False
    then show ?thesis by (simp add: Cons.IH [of "cur @ [c]"])
  qed
qed

lemma tokens_scan_eq_split: "tokens_scan sp [] s = split_ws sp s"
  by (simp add: tokens_scan_split)

lemma extract_dog_breed_label:
  "extract_dog_breed sp up d = Inr (label_of_tokens up (split_ws sp d))"
proof (cases "split_ws sp d")
  case Nil
  then show ?thesis by (simp add: extract_dog_breed_def)
next
  case outer: (Cons t1 ts)
  show ?thesis
  proof (cases ts)
    case Nil
    with outer show ?thesis by (simp add: extract_dog_breed_def)
  next
    case (Cons t2 rest)
    have "t2 \<in> set (split_ws sp d)" using outer Cons by simp
    then have "t2 \<noteq> []" using split_ws_no_empty [of sp d] by metis
    then obtain c cs where t2: "t2 = c # cs" by (cases t2) auto
    show ?thesis
      using outer Cons t2
      by (simp add: extract_dog_breed_def begins_upper_def)
  qed
qed

lemma filter_takeWhile_dropWhile:
  "takeWhile P xs @ filter P (dropWhile P xs) = filter P xs"
  by (induction xs) auto

lemma concat_split_ws: "concat (split_ws sp s) = filter (\<lambda>c. \<not> sp c) s"
proof (induction sp s rule: split_ws.induct)
  case (1 sp)
  show ?case by simp
next
  case (2 sp c cs)
  show ?case
  proof (cases "sp c")
    case True
    with 2 show ?thesis by simp
  next
    case False
    have "concat (split_ws sp (c # cs)) =
        takeWhile (\<lambda>x. \<not> sp x) (c # cs)
          @ filter (\<lambda>c. \<not> sp c) (dropWhile (\<lambda>x. \<not> sp x) (c # cs))"
      using False "2.IH"(2) [OF False] by simp
    then show ?thesis
      by (simp only: filter_takeWhile_dropWhile)
  qed
qed

lemma label_of_tokens_nonempty: "[] \<notin> set ts \<Longrightarrow> label_of_tokens up ts \<noteq> []"
  by (induction up ts rule: label_of_tokens.induct) (auto simp: lit_def)

text \<open>
  C6. For every description and every pair of classification tables,
  \<open>extract_dog_breed\<close> returns normally, and its value is the one the reference
  algorithm computes: with two or more tokens, of which the second begins with an
  uppercase letter or is the last, the first two tokens joined by one space; otherwise
  the first token; with no token, the label "dog". The tokens are the raw whitespace
  separated pieces: put end to end they are the description with its whitespace
  removed, so no other character, punctuation included, is dropped from a token.
\<close>

theorem extract_dog_breed_refines_reference:
  "extract_dog_breed sp up d = Inr (extract_reference sp up d) \<and>
   concat (tokens_scan sp [] d) = filter (\<lambda>c. \<not> sp c) d"
  by (simp add: extract_dog_breed_label extract_reference_def tokens_scan_eq_split
      concat_split_ws)

text \<open>
  C7 as stated: on "Beagle with floppy ears" the extractor would return "Beagle with".
  It does not: there are four tokens and the second one, "with", begins with a
  lowercase letter, so the extractor returns the first token alone.
\<close>

theorem extract_beagle_with_counterexample:
  "extract_dog_breed isspace_ascii isupper_ascii (lit ''Beagle with floppy ears'')
     \<noteq> Inr (lit ''Beagle with'')"
  by (simp add: extract_dog_breed_label lit_def isspace_ascii_def isupper_ascii_def
      begins_upper_def)

text \<open>
  C7, amended. For all classification tables that agree with Python's on the ASCII
  range, \<open>extract_dog_breed\<close> applied to "Beagle with floppy ears" returns "Beagle".
\<close>

theorem extract_beagle:
  assumes "ascii_tables sp up"
  shows "extract_dog_breed sp up (lit ''Beagle with floppy ears'') = Inr (lit ''Beagle'')"
proof -
  have sp: "\<And>c. c < 128 \<Longrightarrow> sp c = isspace_ascii c"
    and up: "\<And>c. c < 128 \<Longrightarrow> up c = isupper_ascii c"
    using assms by (simp_all add: ascii_tables_def)
  show ?thesis
    by (simp add: extract_dog_breed_label lit_def sp up isspace_ascii_def
        isupper_ascii_def begins_upper_def)
qed

theorem extract_beagle_witness:
  "ascii_tables isspace_ascii isupper_ascii \<and>
   extract_dog_breed isspace_ascii isupper_ascii (lit ''Beagle with floppy ears'')
     = Inr (lit ''Beagle'')"
proof -
  have h: "ascii_tables isspace_ascii isupper_ascii"
    by (simp add: ascii_tables_def)
  show ?thesis using h extract_beagle [OF h] by simp
qed

text \<open>
  C8. For every description, \<open>extract_dog_breed\<close> is total (the splitting function is
  defined with a termination proof), no token of the split is empty, so the read of
  \<^verbatim>\<open>words[1][0]\<close> is in bounds and no exception is raised, and the label returned is
  a non-empty string.
\<close>

theorem extract_dog_breed_total_nonempty:
  "[] \<notin> set (split_ws sp d) \<and> (\<exists>label. extract_dog_breed sp up d = Inr label \<and> label \<noteq> [])"
  by (simp add: extract_dog_breed_label split_ws_no_empty label_of_tokens_nonempty)

section \<open>Base64 round trip\<close>












section \<open>The paths through the transformation chain\<close>

lemma transform_read_fail:
  "read_file w p = Inl e \<Longrightarrow> transform ep w p b = (Inl e, w)"
  by (simp add: transform_def)

lemma transform_stage1_raise:
  assumes "read_file w p = Inr data"
    and "ep (calls w) (stage1_request (b64encode data) b) = Inl m"
  shows "transform ep w p b =
    (Inl (ApiError m), w\<lparr>calls := calls w @ [stage1_request (b64encode data) b]\<rparr>)"
  using assms by (simp add: transform_def responses_create_def)

lemma transform_stage1_empty:
  assumes "read_file w p = Inr data"
    and "ep (calls w) (stage1_request (b64encode data) b) = Inr r1"
    and "image_results r1 = []"
  shows "transform ep w p b =
    (Inl (Exception (lit ''Failed to generate image 1'')),
     w\<lparr>calls := calls w @ [stage1_request (b64encode data) b]\<rparr>)"
  using assms by (simp add: transform_def responses_create_def)

lemma transform_stage2_raise:
  assumes "read_file w p = Inr data"
    and "ep (calls w) (stage1_request (b64encode data) b) = Inr r1"
    and "image_results r1 = v1 # vs1"
    and "ep (calls w @ [stage1_request (b64encode data) b]) (stage2_request (resp_id r1) b) = Inl m"
  shows "transform ep w p b =
    (Inl (ApiError m),
     w\<lparr>calls := calls w @ [stage1_request (b64encode data) b, stage2_request (resp_id r1) b]\<rparr>)"
  using assms by (simp add: transform_def responses_create_def)

lemma transform_stage2_empty:
  assumes "read_file w p = Inr data"
    and "ep (calls w) (stage1_request (b64encode data) b) = Inr r1"
    and "image_results r1 = v1 # vs1"
    and "ep (calls w @ [stage1_request (b64encode data) b]) (stage2_request (resp_id r1) b) = Inr r2"
    and "image_results r2 = []"
  shows "transform ep w p b =
    (Inl (Exception (lit ''Failed to generate image 2'')),
     w\<lparr>calls := calls w @ [stage1_request (b64encode data) b, stage2_request (resp_id r1) b]\<rparr>)"
  using assms by (simp add: transform_def responses_create_def)

lemma transform_stage3_raise:
  assumes "read_file w p = Inr data"
    and "ep (calls w) (stage1_request (b64encode data) b) = Inr r1"
    and "image_results r1 = v1 # vs1"
    and "ep (calls w @ [stage1_request (b64encode data) b]) (stage2_request (resp_id r1) b) = Inr r2"
    and "image_results r2 = v2 # vs2"
    and "ep (calls w @ [stage1_request (b64encode data) b, stage2_request (resp_id r1) b])
           (stage3_request (resp_id r2) b) = Inl m"
  shows "transform ep w p b =
    (Inl (ApiError m),
     w\<lparr>calls := calls w @ [stage1_request (b64encode data) b, stage2_request (resp_id r1) b,
                            stage3_request (resp_id r2) b]\<rparr>)"
  using assms by (simp add: transform_def responses_create_def)

lemma transform_stage3_empty:
  assumes "read_file w p = Inr data"
    and "ep (calls w) (stage1_request (b64encode data) b) = Inr r1"
    and "image_results r1 = v1 # vs1"
    and "ep (calls w @ [stage1_request (b64encode data) b]) (stage2_request (resp_id r1) b) = Inr r2"
    and "image_results r2 = v2 # vs2"
    and "ep (calls w @ [stage1_request (b64encode data) b, stage2_request (resp_id r1) b])
           (stage3_request (resp_id r2) b) = Inr r3"
    and "image_results r3 = []"
  shows "transform ep w p b =
    (Inl (Exception (lit ''Failed to generate image 3'')),
     w\<lparr>calls := calls w @ [stage1_request (b64encode data) b, stage2_request (resp_id r1) b,
                            stage3_request (resp_id r2) b]\<rparr>)"
  using assms by (simp add: transform_def responses_create_def)

lemma transform_success:
  assumes "read_file w p = Inr data"
    and "ep (calls w) (stage1_request (b64encode data) b) = Inr r1"
    and "image_results r1 = v1 # vs1"
    and "ep (calls w @ [stage1_request (b64encode data) b]) (stage2_request (resp_id r1) b) = Inr r2"
    and "image_results r2 = v2 # vs2"
    and "ep (calls w @ [stage1_request (b64encode data) b, stage2_request (resp_id r1) b])
           (stage3_request (resp_id r2) b) = Inr r3"
    and "image_results r3 = v3 # vs3"
  shows "transform ep w p b =
    (Inr [(lit ''image1_transition.png'', v1), (lit ''image2_transition.png'', v2),
          (lit ''image3_final_dog.png'', v3)],
     w\<lparr>calls := calls w @ [stage1_request (b64encode data) b, stage2_request (resp_id r1) b,
                            stage3_request (resp_id r2) b]\<rparr>)"
  using assms by (simp add: transform_def responses_create_def)


lemma transform_cases:
  obtains
    (read_fail) e where "read_file w p = Inl e"
  | (stage1_raise) data m where "read_file w p = Inr data"
      "ep (calls w) (stage1_request (b64encode data) b) = Inl m"
  | (stage1_empty) data r1 where "read_file w p = Inr data"
      "ep (calls w) (stage1_request (b64encode data) b) = Inr r1"
      "image_results r1 = []"
  | (stage2_raise) data r1 v1 vs1 m where "read_file w p = Inr data"
      "ep (calls w) (stage1_request (b64encode data) b) = Inr r1"
      "image_results r1 = v1 # vs1"
      "ep (calls w @ [stage1_request (b64encode data) b]) (stage2_request (resp_id r1) b) = Inl m"
  | (stage2_empty) data r1 v1 vs1 r2 where "read_file w p = Inr data"
      "ep (calls w) (stage1_request (b64encode data) b) = Inr r1"
      "image_results r1 = v1 # vs1"
      "ep (calls w @ [stage1_request (b64encode data) b]) (stage2_request (resp_id r1) b) = Inr r2"
      "image_results r2 = []"
  | (stage3_raise) data r1 v1 vs1 r2 v2 vs2 m where "read_file w p = Inr data"
      "ep (calls w) (stage1_request (b64encode data) b) = Inr r1"
      "image_results r1 = v1 # vs1"
      "ep (calls w @ [stage1_request (b64encode data) b]) (stage2_request (resp_id r1) b) = Inr r2"
      "image_results r2 = v2 # vs2"
      "ep (calls w @ [stage1_request (b64encode data) b, stage2_request (resp_id r1) b])
         (stage3_request (resp_id r2) b) = Inl m"
  | (stage3_empty) data r1 v1 vs1 r2 v2 vs2 r3 where "read_file w p = Inr data"
      "ep (calls w) (stage1_request (b64encode data) b) = Inr r1"
      "image_results r1 = v1 # vs1"
      "ep (calls w @ [stage1_request (b64encode data) b]) (stage2_request (resp_id r1) b) = Inr r2"
      "image_results r2 = v2 # vs2"
      "ep (calls w @ [stage1_request (b64encode data) b, stage2_request (resp_id r1) b])
         (stage3_request (resp_id r2) b) = Inr r3"
      "image_results r3 = []"
  | (success) data r1 v1 vs1 r2 v2 vs2 r3 v3 vs3 where "read_file w p = Inr data"
      "ep (calls w) (stage1_request (b64encode data) b) = Inr r1"
      "image_results r1 = v1 # vs1"
      "ep (calls w @ [stage1_request (b64encode data) b]) (stage2_request (resp_id r1) b) = Inr r2"
      "image_results r2 = v2 # vs2"
      "ep (calls w @ [stage1_request (b64encode data) b, stage2_request (resp_id r1) b])
         (stage3_request (resp_id r2) b) = Inr r3"
      "image_results r3 = v3 # vs3"
proof (cases "read_file w p")
  case (Inl e)
  then show ?thesis by (rule read_fail)
next
  case R: (Inr data)
  show ?thesis
  proof (cases "ep (calls w) (stage1_request (b64encode data) b)")
    case (Inl m)
    with R show ?thesis by (rule stage1_raise)
  next
    case E1: (Inr r1)
    show ?thesis
    proof (cases "image_results r1")
      case Nil
      with R E1 show ?thesis by (rule stage1_empty)
    next
      case I1: (Cons v1 vs1)
      show ?thesis
      proof (cases "ep (calls w @ [stage1_request (b64encode data) b])
                      (stage2_request (resp_id r1) b)")
        case (Inl m)
        with R E1 I1 show ?thesis by (rule stage2_raise)
      next
        case E2: (Inr r2)
        show ?thesis
        proof (cases "image_results r2")
          case Nil
          with R E1 I1 E2 show ?thesis by (rule stage2_empty)
        next
          case I2: (Cons v2 vs2)
          show ?thesis
          proof (cases "ep (calls w @ [stage1_request (b64encode data) b,
                            stage2_request (resp_id r1) b]) (stage3_request (resp_id r2) b)")
            case (Inl m)
            with R E1 I1 E2 I2 show ?thesis by (rule stage3_raise)
          next
            case E3: (Inr r3)
            show ?thesis
            proof (cases "image_results r3")
              case Nil
              with R E1 I1 E2 I2 E3 show ?thesis by (rule stage3_empty)
            next
              case (Cons v3 vs3)
              with R E1 I1 E2 I2 E3 show ?thesis by (rule success)
            qed
          qed
        qed
      qed
    qed
  qed
qed

lemma generate_transform_fail:
  "transform ep w p b = (Inl e, w') \<Longrightarrow>
   generate_progressive_images ep w p b out = (Inl e, w')"
  by (simp add: generate_progressive_images_def)

lemma generate_transform_ok:
  "transform ep w p b = (Inr m, w') \<Longrightarrow>
   generate_progressive_images ep w p b out = persist w' out m"
  by (simp add: generate_progressive_images_def)

lemma a2b_base64_no_Exception: "a2b_base64 t q l n acc \<noteq> Inl (Exception x)"
  by (induction t q l n acc rule: a2b_base64.induct) (auto split: option.splits)

lemma b64decode_no_Exception: "b64decode v \<noteq> Inl (Exception x)"
  by (cases v) (simp_all add: b64decode_def a2b_base64_no_Exception)

lemma write_image_no_Exception: "fst (write_image w f v) \<noteq> Inl (Exception x)"
  using b64decode_no_Exception [of v x]
  by (auto simp: write_image_def open_wb_def os_error_def
      split: option.splits node.splits sum.splits)

lemma write_image_calls: "calls (snd (write_image w f v)) = calls w"
  by (auto simp: write_image_def open_wb_def split: option.splits node.splits sum.splits)

lemma save_under_no_Exception: "fst (save_under w d items acc) \<noteq> Inl (Exception x)"
proof (induction w d items acc rule: save_under.induct)
  case (1 w d acc)
  show ?case by simp
next
  case (2 w d filename image_base64 rest acc)
  show ?case
  proof (cases "write_image w (path_join d filename) image_base64")
    case (Pair res w')
    show ?thesis
    proof (cases res)
      case (Inl e)
      with Pair write_image_no_Exception [of w "path_join d filename" image_base64 x]
      show ?thesis by simp
    next
      case (Inr u)
      with Pair "2.IH" [OF Pair [symmetric] Inr] show ?thesis by simp
    qed
  qed
qed

lemma save_under_calls: "calls (snd (save_under w d items acc)) = calls w"
proof (induction w d items acc rule: save_under.induct)
  case (1 w d acc)
  show ?case by simp
next
  case (2 w d filename image_base64 rest acc)
  show ?case
  proof (cases "write_image w (path_join d filename) image_base64")
    case (Pair res w')
    then have c: "calls w' = calls w"
      using write_image_calls [of w "path_join d filename" image_base64] by simp
    show ?thesis
    proof (cases res)
      case (Inl e)
      with Pair c show ?thesis by simp
    next
      case (Inr u)
      with Pair c "2.IH" [OF Pair [symmetric] Inr] show ?thesis by simp
    qed
  qed
qed

lemma save_here_no_Exception: "fst (save_here w items) \<noteq> Inl (Exception x)"
proof (induction w items rule: save_here.induct)
  case (1 w)
  show ?case by simp
next
  case (2 w filename image_base64 rest)
  show ?case
  proof (cases "write_image w filename image_base64")
    case (Pair res w')
    show ?thesis
    proof (cases res)
      case (Inl e)
      with Pair write_image_no_Exception [of w filename image_base64 x]
      show ?thesis by simp
    next
      case (Inr u)
      with Pair "2.IH" [OF Pair [symmetric] Inr] show ?thesis by simp
    qed
  qed
qed

lemma save_here_calls: "calls (snd (save_here w items)) = calls w"
proof (induction w items rule: save_here.induct)
  case (1 w)
  show ?case by simp
next
  case (2 w filename image_base64 rest)
  show ?case
  proof (cases "write_image w filename image_base64")
    case (Pair res w')
    then have c: "calls w' = calls w"
      using write_image_calls [of w filename image_base64] by simp
    show ?thesis
    proof (cases res)
      case (Inl e)
      with Pair c show ?thesis by simp
    next
      case (Inr u)
      with Pair c "2.IH" [OF Pair [symmetric] Inr] show ?thesis by simp
    qed
  qed
qed

lemma persist_no_Exception: "fst (persist w out m) \<noteq> Inl (Exception x)"
proof -
  have here: "fst (case save_here w m of (Inl e, w') \<Rightarrow> (Inl e, w')
                   | (Inr u, w') \<Rightarrow> (Inr m, w')) \<noteq> Inl (Exception x)"
    using save_here_no_Exception [of w m x]
    by (cases "save_here w m") (auto split: sum.splits)
  show ?thesis
  proof (cases out)
    case None
    with here show ?thesis by (simp add: persist_def)
  next
    case (Some d)
    show ?thesis
    proof (cases "d = []")
      case True
      with Some here show ?thesis by (simp add: persist_def)
    next
      case False
      with Some save_under_no_Exception show ?thesis
        by (auto simp: persist_def makedirs_def os_error_def
            split: option.splits node.splits sum.splits)
    qed
  qed
qed

lemma persist_calls: "calls (snd (persist w out m)) = calls w"
proof -
  have here: "calls (snd (case save_here w m of (Inl e, w') \<Rightarrow> (Inl e, w')
                   | (Inr u, w') \<Rightarrow> (Inr m, w'))) = calls w"
    using save_here_calls [of w m]
    by (cases "save_here w m") (auto split: sum.splits)
  show ?thesis
  proof (cases out)
    case None
    with here show ?thesis by (simp add: persist_def)
  next
    case (Some d)
    show ?thesis
    proof (cases "d = []")
      case True
      with Some here show ?thesis by (simp add: persist_def)
    next
      case False
      with Some show ?thesis
        by (auto simp: persist_def makedirs_def save_under_calls
            split: option.splits node.splits sum.splits)
    qed
  qed
qed

section \<open>Abort of the chain\<close>

lemma image_results_empty_iff:
  "image_results r = [] \<longleftrightarrow> \<not> list_ex is_image_call (resp_output r)"
  by (simp add: image_results_def list_ex_iff filter_empty_conv)

lemma generate_calls:
  "calls (snd (generate_progressive_images ep w p b out)) = calls (snd (transform ep w p b))"
proof (cases "transform ep w p b")
  case (Pair res w')
  show ?thesis
  proof (cases res)
    case (Inl e)
    with Pair show ?thesis by (simp add: generate_progressive_images_def)
  next
    case (Inr m)
    with Pair show ?thesis by (simp add: generate_progressive_images_def persist_calls)
  qed
qed

lemma transform_calls_bound:
  "\<exists>new. calls (snd (transform ep w p b)) = calls w @ new \<and> length new \<le> 3"
proof (cases rule: transform_cases [where w = w and p = p and ep = ep and b = b])
  case (read_fail e)
  then show ?thesis by (simp add: transform_read_fail)
next
  case (stage1_raise data m)
  then show ?thesis by (simp add: transform_stage1_raise)
next
  case (stage1_empty data r1)
  then show ?thesis by (simp add: transform_stage1_empty)
next
  case (stage2_raise data r1 v1 vs1 m)
  then show ?thesis by (simp add: transform_stage2_raise)
next
  case (stage2_empty data r1 v1 vs1 r2)
  then show ?thesis by (simp add: transform_stage2_empty)
next
  case (stage3_raise data r1 v1 vs1 r2 v2 vs2 m)
  then show ?thesis by (simp add: transform_stage3_raise)
next
  case (stage3_empty data r1 v1 vs1 r2 v2 vs2 r3)
  then show ?thesis by (simp add: transform_stage3_empty)
next
  case (success data r1 v1 vs1 r2 v2 vs2 r3 v3 vs3)
  then show ?thesis by (simp add: transform_success)
qed

text \<open>
  C1, amended. The requests of a run are appended to the log one after the other, at
  most three of them, and each stage's request is built from the response of the stage
  before. When the call of stage n raises, or its response has no item of type
  \<^verbatim>\<open>image_generation_call\<close> with a \<^verbatim>\<open>result\<close> attribute, the run ends at once with
  that failure (the endpoint's error, or "Failed to generate image n"), the log holds
  exactly the requests of stages 1 to n, and nothing else of the world has changed: no
  later stage is issued and no request is repeated.
\<close>

theorem chain_aborts_at_first_failing_stage:
  assumes R: "read_file w p = Inr data"
  shows
   "(ep (calls w) (stage1_request (b64encode data) b) = Inl m \<longrightarrow>
       generate_progressive_images ep w p b out =
         (Inl (ApiError m), w\<lparr>calls := calls w @ [stage1_request (b64encode data) b]\<rparr>)) \<and>
    (ep (calls w) (stage1_request (b64encode data) b) = Inr r1 \<and>
     \<not> list_ex is_image_call (resp_output r1) \<longrightarrow>
       generate_progressive_images ep w p b out =
         (Inl (Exception (lit ''Failed to generate image 1'')),
          w\<lparr>calls := calls w @ [stage1_request (b64encode data) b]\<rparr>)) \<and>
    (ep (calls w) (stage1_request (b64encode data) b) = Inr r1 \<and>
     list_ex is_image_call (resp_output r1) \<and>
     ep (calls w @ [stage1_request (b64encode data) b]) (stage2_request (resp_id r1) b) = Inl m
     \<longrightarrow>
       generate_progressive_images ep w p b out =
         (Inl (ApiError m),
          w\<lparr>calls := calls w @ [stage1_request (b64encode data) b,
                                 stage2_request (resp_id r1) b]\<rparr>)) \<and>
    (ep (calls w) (stage1_request (b64encode data) b) = Inr r1 \<and>
     list_ex is_image_call (resp_output r1) \<and>
     ep (calls w @ [stage1_request (b64encode data) b]) (stage2_request (resp_id r1) b) = Inr r2 \<and>
     \<not> list_ex is_image_call (resp_output r2) \<longrightarrow>
       generate_progressive_images ep w p b out =
         (Inl (Exception (lit ''Failed to generate image 2'')),
          w\<lparr>calls := calls w @ [stage1_request (b64encode data) b,
                                 stage2_request (resp_id r1) b]\<rparr>)) \<and>
    (ep (calls w) (stage1_request (b64encode data) b) = Inr r1 \<and>
     list_ex is_image_call (resp_output r1) \<and>
     ep (calls w @ [stage1_request (b64encode data) b]) (stage2_request (resp_id r1) b) = Inr r2 \<and>
     list_ex is_image_call (resp_output r2) \<and>
     ep (calls w @ [stage1_request (b64encode data) b, stage2_request (resp_id r1) b])
        (stage3_request (resp_id r2) b) = Inl m \<longrightarrow>
       generate_progressive_images ep w p b out =
         (Inl (ApiError m),
          w\<lparr>calls := calls w @ [stage1_request (b64encode data) b,
                                 stage2_request (resp_id r1) b,
                                 stage3_request (resp_id r2) b]\<rparr>)) \<and>
    (ep (calls w) (stage1_request (b64encode data) b) = Inr r1 \<and>
     list_ex is_image_call (resp_output r1) \<and>
     ep (calls w @ [stage1_request (b64encode data) b]) (stage2_request (resp_id r1) b) = Inr r2 \<and>
     list_ex is_image_call (resp_output r2) \<and>
     ep (calls w @ [stage1_request (b64encode data) b, stage2_request (resp_id r1) b])
        (stage3_request (resp_id r2) b) = Inr r3 \<and>
     \<not> list_ex is_image_call (resp_output r3) \<longrightarrow>
       generate_progressive_images ep w p b out =
         (Inl (Exception (lit ''Failed to generate image 3'')),
          w\<lparr>calls := calls w @ [stage1_request (b64encode data) b,
                                 stage2_request (resp_id r1) b,
                                 stage3_request (resp_id r2) b]\<rparr>)) \<and>
    (\<exists>new. calls (snd (generate_progressive_images ep w p b out)) = calls w @ new \<and>
            length new \<le> 3)"
proof (intro conjI impI)
  assume "ep (calls w) (stage1_request (b64encode data) b) = Inl m"
  then show "generate_progressive_images ep w p b out =
      (Inl (ApiError m), w\<lparr>calls := calls w @ [stage1_request (b64encode data) b]\<rparr>)"
    by (rule generate_transform_fail [OF transform_stage1_raise [OF R]])
next
  assume "ep (calls w) (stage1_request (b64encode data) b) = Inr r1 \<and>
     \<not> list_ex is_image_call (resp_output r1)"
  then have "ep (calls w) (stage1_request (b64encode data) b) = Inr r1" "image_results r1 = []"
    by (simp_all add: image_results_empty_iff)
  then show "generate_progressive_images ep w p b out =
      (Inl (Exception (lit ''Failed to generate image 1'')),
       w\<lparr>calls := calls w @ [stage1_request (b64encode data) b]\<rparr>)"
    by (rule generate_transform_fail [OF transform_stage1_empty [OF R]])
next
  assume "ep (calls w) (stage1_request (b64encode data) b) = Inr r1 \<and>
     list_ex is_image_call (resp_output r1) \<and>
     ep (calls w @ [stage1_request (b64encode data) b]) (stage2_request (resp_id r1) b) = Inl m"
  then obtain v1 vs1 where "ep (calls w) (stage1_request (b64encode data) b) = Inr r1"
    "image_results r1 = v1 # vs1"
    "ep (calls w @ [stage1_request (b64encode data) b]) (stage2_request (resp_id r1) b) = Inl m"
    using image_results_empty_iff [of r1] by (cases "image_results r1") auto
  then show "generate_progressive_images ep w p b out =
      (Inl (ApiError m),
       w\<lparr>calls := calls w @ [stage1_request (b64encode data) b,
                              stage2_request (resp_id r1) b]\<rparr>)"
    by (rule generate_transform_fail [OF transform_stage2_raise [OF R]])
next
  assume "ep (calls w) (stage1_request (b64encode data) b) = Inr r1 \<and>
     list_ex is_image_call (resp_output r1) \<and>
     ep (calls w @ [stage1_request (b64encode data) b]) (stage2_request (resp_id r1) b) = Inr r2 \<and>
     \<not> list_ex is_image_call (resp_output r2)"
  then obtain v1 vs1 where "ep (calls w) (stage1_request (b64encode data) b) = Inr r1"
    "image_results r1 = v1 # vs1"
    "ep (calls w @ [stage1_request (b64encode data) b]) (stage2_request (resp_id r1) b) = Inr r2"
    "image_results r2 = []"
    using image_results_empty_iff [of r1] image_results_empty_iff [of r2]
    by (cases "image_results r1") auto
  then show "generate_progressive_images ep w p b out =
      (Inl (Exception (lit ''Failed to generate image 2'')),
       w\<lparr>calls := calls w @ [stage1_request (b64encode data) b,
                              stage2_request (resp_id r1) b]\<rparr>)"
    by (rule generate_transform_fail [OF transform_stage2_empty [OF R]])
next
  assume "ep (calls w) (stage1_request (b64encode data) b) = Inr r1 \<and>
     list_ex is_image_call (resp_output r1) \<and>
     ep (calls w @ [stage1_request (b64encode data) b]) (stage2_request (resp_id r1) b) = Inr r2 \<and>
     list_ex is_image_call (resp_output r2) \<and>
     ep (calls w @ [stage1_request (b64encode data) b, stage2_request (resp_id r1) b])
        (stage3_request (resp_id r2) b) = Inl m"
  then obtain v1 vs1 v2 vs2 where "ep (calls w) (stage1_request (b64encode data) b) = Inr r1"
    "image_results r1 = v1 # vs1"
    "ep (calls w @ [stage1_request (b64encode data) b]) (stage2_request (resp_id r1) b) = Inr r2"
    "image_results r2 = v2 # vs2"
    "ep (calls w @ [stage1_request (b64encode data) b, stage2_request (resp_id r1) b])
        (stage3_request (resp_id r2) b) = Inl m"
    using image_results_empty_iff [of r1] image_results_empty_iff [of r2]
    by (cases "image_results r1"; cases "image_results r2") auto
  then show "generate_progressive_images ep w p b out =
      (Inl (ApiError m),
       w\<lparr>calls := calls w @ [stage1_request (b64encode data) b,
                              stage2_request (resp_id r1) b,
                              stage3_request (resp_id r2) b]\<rparr>)"
    by (rule generate_transform_fail [OF transform_stage3_raise [OF R]])
next
  assume "ep (calls w) (stage1_request (b64encode data) b) = Inr r1 \<and>
     list_ex is_image_call (resp_output r1) \<and>
     ep (calls w @ [stage1_request (b64encode data) b]) (stage2_request (resp_id r1) b) = Inr r2 \<and>
     list_ex is_image_call (resp_output r2) \<and>
     ep (calls w @ [stage1_request (b64encode data) b, stage2_request (resp_id r1) b])
        (stage3_request (resp_id r2) b) = Inr r3 \<and>
     \<not> list_ex is_image_call (resp_output r3)"
  then obtain v1 vs1 v2 vs2 where "ep (calls w) (stage1_request (b64encode data) b) = Inr r1"
    "image_results r1 = v1 # vs1"
    "ep (calls w @ [stage1_request (b64encode data) b]) (stage2_request (resp_id r1) b) = Inr r2"
    "image_results r2 = v2 # vs2"
    "ep (calls w @ [stage1_request (b64encode data) b, stage2_request (resp_id r1) b])
        (stage3_request (resp_id r2) b) = Inr r3"
    "image_results r3 = []"
    using image_results_empty_iff [of r1] image_results_empty_iff [of r2]
      image_results_empty_iff [of r3]
    by (cases "image_results r1"; cases "image_results r2") auto
  then show "generate_progressive_images ep w p b out =
      (Inl (Exception (lit ''Failed to generate image 3'')),
       w\<lparr>calls := calls w @ [stage1_request (b64encode data) b,
                              stage2_request (resp_id r1) b,
                              stage3_request (resp_id r2) b]\<rparr>)"
    by (rule generate_transform_fail [OF transform_stage3_empty [OF R]])
next
  show "\<exists>new. calls (snd (generate_progressive_images ep w p b out)) = calls w @ new \<and>
            length new \<le> 3"
    by (simp only: generate_calls transform_calls_bound)
qed


lemma read_world0: "read_file world0 (lit ''me.jpg'') = Inr [1, 2, 3]"
  by (simp add: read_file_def world0_def)

lemma calls_world0: "calls world0 = []"
  by (simp add: world0_def)

lemma resp_id_reply: "resp_id (reply ident items) = lit ident"
  by (simp add: reply_def)

lemma is_image_call_image_item: "is_image_call (image_item v)"
  by (simp add: is_image_call_def image_item_def)

lemma image_results_reply_one: "image_results (reply ident [image_item v]) = [v]"
  by (simp add: image_results_def reply_def is_image_call_def image_item_def)

text \<open>
  An instance: the second response has no item at all, the run fails at stage 2 and the
  log holds two requests.
\<close>

theorem chain_aborts_at_first_failing_stage_witness:
  "generate_progressive_images
     (endpoint_seq [Inr (reply ''resp_1'' [image_item (PyStr (lit ''QQ==''))]),
                    Inr (reply ''resp_2'' [])])
     world0 (lit ''me.jpg'') (lit ''Beagle'') None =
   (Inl (Exception (lit ''Failed to generate image 2'')),
    world0\<lparr>calls := [stage1_request (b64encode [1, 2, 3]) (lit ''Beagle''),
                       stage2_request (lit ''resp_1'') (lit ''Beagle'')]\<rparr>)"
  using chain_aborts_at_first_failing_stage [OF read_world0,
      of "endpoint_seq [Inr (reply ''resp_1'' [image_item (PyStr (lit ''QQ==''))]),
                        Inr (reply ''resp_2'' [])]"
         "lit ''Beagle''" "[]" None "reply ''resp_1'' [image_item (PyStr (lit ''QQ==''))]"
         "reply ''resp_2'' []" "reply ''resp_2'' []"]
  by (simp add: calls_world0 endpoint_seq_def is_image_call_image_item reply_def)

text \<open>
  C1 as stated, with a valid payload read as the specification defines it (a non-empty
  result): the first response has one image-generation item whose result is \<^verbatim>\<open>None\<close>,
  so it yields no valid payload, and yet the requests of stages 2 and 3 are issued.
\<close>

theorem stage2_issued_after_null_payload_counterexample:
  "endpoint_seq [Inr (reply ''resp_1'' [image_item PyNone]),
                 Inr (reply ''resp_2'' [image_item (PyStr (lit ''QQ==''))]),
                 Inr (reply ''resp_3'' [image_item (PyStr (lit ''QQ==''))])]
     [] (stage1_request (b64encode [1, 2, 3]) (lit ''Beagle''))
     = Inr (reply ''resp_1'' [image_item PyNone]) \<and>
   \<not> list_ex carries_nonempty_result (resp_output (reply ''resp_1'' [image_item PyNone])) \<and>
   calls (snd (generate_progressive_images
     (endpoint_seq [Inr (reply ''resp_1'' [image_item PyNone]),
                    Inr (reply ''resp_2'' [image_item (PyStr (lit ''QQ==''))]),
                    Inr (reply ''resp_3'' [image_item (PyStr (lit ''QQ==''))])])
     world0 (lit ''me.jpg'') (lit ''Beagle'') None)) =
     [stage1_request (b64encode [1, 2, 3]) (lit ''Beagle''),
      stage2_request (lit ''resp_1'') (lit ''Beagle''),
      stage3_request (lit ''resp_2'') (lit ''Beagle'')]"
proof -
  let ?ep = "endpoint_seq [Inr (reply ''resp_1'' [image_item PyNone]),
                 Inr (reply ''resp_2'' [image_item (PyStr (lit ''QQ==''))]),
                 Inr (reply ''resp_3'' [image_item (PyStr (lit ''QQ==''))])]"
  have t: "transform ?ep world0 (lit ''me.jpg'') (lit ''Beagle'') =
    (Inr [(lit ''image1_transition.png'', PyNone),
          (lit ''image2_transition.png'', PyStr (lit ''QQ=='')),
          (lit ''image3_final_dog.png'', PyStr (lit ''QQ==''))],
     world0\<lparr>calls := calls world0 @ [stage1_request (b64encode [1, 2, 3]) (lit ''Beagle''),
        stage2_request (resp_id (reply ''resp_1'' [image_item PyNone])) (lit ''Beagle''),
        stage3_request (resp_id (reply ''resp_2'' [image_item (PyStr (lit ''QQ==''))]))
          (lit ''Beagle'')]\<rparr>)"
    by (rule transform_success [OF read_world0, where ?vs1.0 = "[]" and ?vs2.0 = "[]"
          and ?vs3.0 = "[]"
          and ?r3.0 = "reply ''resp_3'' [image_item (PyStr (lit ''QQ==''))]"])
       (simp_all add: calls_world0 endpoint_seq_def image_results_reply_one)
  have "calls (snd (generate_progressive_images ?ep world0 (lit ''me.jpg'') (lit ''Beagle'') None))
      = [stage1_request (b64encode [1, 2, 3]) (lit ''Beagle''),
         stage2_request (lit ''resp_1'') (lit ''Beagle''),
         stage3_request (lit ''resp_2'') (lit ''Beagle'')]"
    by (simp add: generate_calls t calls_world0 resp_id_reply)
  then show ?thesis
    by (simp add: endpoint_seq_def carries_nonempty_result_def reply_def image_item_def)
qed

section \<open>Stage failures\<close>

lemma failed_messages_distinct:
  "lit ''Failed to generate image 1'' \<noteq> lit ''Failed to generate image 2''"
  "lit ''Failed to generate image 1'' \<noteq> lit ''Failed to generate image 3''"
  "lit ''Failed to generate image 2'' \<noteq> lit ''Failed to generate image 3''"
  by (simp_all add: lit_def)

lemma no_Exception_after_stage2:
  assumes R: "read_file w p = Inr data"
    and E1: "ep (calls w) (stage1_request (b64encode data) b) = Inr r1"
    and I1: "image_results r1 = v1 # vs1"
    and E2: "ep (calls w @ [stage1_request (b64encode data) b]) (stage2_request (resp_id r1) b)
               = Inr r2"
    and I2: "image_results r2 = v2 # vs2"
    and x: "x \<noteq> lit ''Failed to generate image 3''"
  shows "fst (generate_progressive_images ep w p b out) \<noteq> Inl (Exception x)"
proof (cases "ep (calls w @ [stage1_request (b64encode data) b, stage2_request (resp_id r1) b])
                (stage3_request (resp_id r2) b)")
  case (Inl m)
  show ?thesis
    by (simp add: generate_transform_fail [OF transform_stage3_raise [where ep = ep, OF R E1 I1 E2 I2 Inl]])
next
  case E3: (Inr r3)
  show ?thesis
  proof (cases "image_results r3")
    case Nil
    show ?thesis using x
      by (simp add: generate_transform_fail [OF transform_stage3_empty [where ep = ep, OF R E1 I1 E2 I2 E3 Nil]])
  next
    case (Cons v3 vs3)
    show ?thesis
      by (simp add: generate_transform_ok [OF transform_success [where ep = ep, OF R E1 I1 E2 I2 E3 Cons]]
          persist_no_Exception)
  qed
qed

lemma no_Exception_after_stage1:
  assumes R: "read_file w p = Inr data"
    and E1: "ep (calls w) (stage1_request (b64encode data) b) = Inr r1"
    and I1: "image_results r1 = v1 # vs1"
    and x: "x \<noteq> lit ''Failed to generate image 2''" "x \<noteq> lit ''Failed to generate image 3''"
  shows "fst (generate_progressive_images ep w p b out) \<noteq> Inl (Exception x)"
proof (cases "ep (calls w @ [stage1_request (b64encode data) b]) (stage2_request (resp_id r1) b)")
  case (Inl m)
  show ?thesis
    by (simp add: generate_transform_fail [OF transform_stage2_raise [where ep = ep, OF R E1 I1 Inl]])
next
  case E2: (Inr r2)
  show ?thesis
  proof (cases "image_results r2")
    case Nil
    show ?thesis using x(1)
      by (simp add: generate_transform_fail [OF transform_stage2_empty [where ep = ep, OF R E1 I1 E2 Nil]])
  next
    case (Cons v2 vs2)
    show ?thesis by (rule no_Exception_after_stage2 [where ep = ep, OF R E1 I1 E2 Cons x(2)])
  qed
qed

lemma stage1_failure_iff:
  assumes R: "read_file w p = Inr data"
    and E1: "ep (calls w) (stage1_request (b64encode data) b) = Inr r1"
  shows "fst (generate_progressive_images ep w p b out)
           = Inl (Exception (lit ''Failed to generate image 1''))
         \<longleftrightarrow> \<not> list_ex is_image_call (resp_output r1)"
proof (cases "image_results r1")
  case Nil
  then show ?thesis
    by (simp add: generate_transform_fail [OF transform_stage1_empty [where ep = ep, OF R E1 Nil]]
        image_results_empty_iff [symmetric])
next
  case (Cons v1 vs1)
  then show ?thesis
    using no_Exception_after_stage1 [where ep = ep, OF R E1 Cons failed_messages_distinct(1,2)]
    by (simp add: image_results_empty_iff [symmetric])
qed

lemma stage2_failure_iff:
  assumes R: "read_file w p = Inr data"
    and E1: "ep (calls w) (stage1_request (b64encode data) b) = Inr r1"
    and I1: "list_ex is_image_call (resp_output r1)"
    and E2: "ep (calls w @ [stage1_request (b64encode data) b]) (stage2_request (resp_id r1) b)
               = Inr r2"
  shows "fst (generate_progressive_images ep w p b out)
           = Inl (Exception (lit ''Failed to generate image 2''))
         \<longleftrightarrow> \<not> list_ex is_image_call (resp_output r2)"
proof -
  from I1 obtain v1 vs1 where C1: "image_results r1 = v1 # vs1"
    using image_results_empty_iff [of r1] by (cases "image_results r1") auto
  show ?thesis
  proof (cases "image_results r2")
    case Nil
    then show ?thesis
      by (simp add: generate_transform_fail [OF transform_stage2_empty [where ep = ep, OF R E1 C1 E2 Nil]]
          image_results_empty_iff [symmetric])
  next
    case (Cons v2 vs2)
    then show ?thesis
      using no_Exception_after_stage2 [where ep = ep, OF R E1 C1 E2 Cons failed_messages_distinct(3)]
      by (simp add: image_results_empty_iff [symmetric])
  qed
qed

lemma stage3_failure_iff:
  assumes R: "read_file w p = Inr data"
    and E1: "ep (calls w) (stage1_request (b64encode data) b) = Inr r1"
    and I1: "list_ex is_image_call (resp_output r1)"
    and E2: "ep (calls w @ [stage1_request (b64encode data) b]) (stage2_request (resp_id r1) b)
               = Inr r2"
    and I2: "list_ex is_image_call (resp_output r2)"
    and E3: "ep (calls w @ [stage1_request (b64encode data) b, stage2_request (resp_id r1) b])
               (stage3_request (resp_id r2) b) = Inr r3"
  shows "fst (generate_progressive_images ep w p b out)
           = Inl (Exception (lit ''Failed to generate image 3''))
         \<longleftrightarrow> \<not> list_ex is_image_call (resp_output r3)"
proof -
  from I1 obtain v1 vs1 where C1: "image_results r1 = v1 # vs1"
    using image_results_empty_iff [of r1] by (cases "image_results r1") auto
  from I2 obtain v2 vs2 where C2: "image_results r2 = v2 # vs2"
    using image_results_empty_iff [of r2] by (cases "image_results r2") auto
  show ?thesis
  proof (cases "image_results r3")
    case Nil
    then show ?thesis
      by (simp add: generate_transform_fail [OF transform_stage3_empty [where ep = ep, OF R E1 C1 E2 C2 E3 Nil]]
          image_results_empty_iff [symmetric])
  next
    case (Cons v3 vs3)
    then show ?thesis
      by (simp add: generate_transform_ok [OF transform_success [where ep = ep, OF R E1 C1 E2 C2 E3 Cons]]
          persist_no_Exception image_results_empty_iff [symmetric])
  qed
qed

text \<open>
  C2, amended. For a stage that is reached and whose request is answered, the run fails
  with "Failed to generate image n" exactly when the response has no item of type
  \<^verbatim>\<open>image_generation_call\<close> that has a \<^verbatim>\<open>result\<close> attribute. The value of the attribute
  is not looked at: an item whose result is \<^verbatim>\<open>None\<close> or the empty string counts as a
  result, and only an item without the attribute does not.
\<close>

theorem stage_failure_iff_no_image_item:
  assumes R: "read_file w p = Inr data"
  shows
   "(ep (calls w) (stage1_request (b64encode data) b) = Inr r1 \<longrightarrow>
       (fst (generate_progressive_images ep w p b out)
          = Inl (Exception (lit ''Failed to generate image 1''))
        \<longleftrightarrow> \<not> list_ex is_image_call (resp_output r1))) \<and>
    (ep (calls w) (stage1_request (b64encode data) b) = Inr r1 \<and>
     list_ex is_image_call (resp_output r1) \<and>
     ep (calls w @ [stage1_request (b64encode data) b]) (stage2_request (resp_id r1) b) = Inr r2
     \<longrightarrow>
       (fst (generate_progressive_images ep w p b out)
          = Inl (Exception (lit ''Failed to generate image 2''))
        \<longleftrightarrow> \<not> list_ex is_image_call (resp_output r2))) \<and>
    (ep (calls w) (stage1_request (b64encode data) b) = Inr r1 \<and>
     list_ex is_image_call (resp_output r1) \<and>
     ep (calls w @ [stage1_request (b64encode data) b]) (stage2_request (resp_id r1) b) = Inr r2 \<and>
     list_ex is_image_call (resp_output r2) \<and>
     ep (calls w @ [stage1_request (b64encode data) b, stage2_request (resp_id r1) b])
        (stage3_request (resp_id r2) b) = Inr r3 \<longrightarrow>
       (fst (generate_progressive_images ep w p b out)
          = Inl (Exception (lit ''Failed to generate image 3''))
        \<longleftrightarrow> \<not> list_ex is_image_call (resp_output r3))) \<and>
    (is_image_call item \<longleftrightarrow>
       item_type item = Some (PyStr (lit ''image_generation_call'')) \<and>
       (\<exists>v. item_result item = Some v))"
proof (intro conjI impI)
  assume "ep (calls w) (stage1_request (b64encode data) b) = Inr r1"
  then show "fst (generate_progressive_images ep w p b out)
          = Inl (Exception (lit ''Failed to generate image 1''))
        \<longleftrightarrow> \<not> list_ex is_image_call (resp_output r1)"
    by (rule stage1_failure_iff [where ep = ep, OF R])
next
  assume "ep (calls w) (stage1_request (b64encode data) b) = Inr r1 \<and>
     list_ex is_image_call (resp_output r1) \<and>
     ep (calls w @ [stage1_request (b64encode data) b]) (stage2_request (resp_id r1) b) = Inr r2"
  then show "fst (generate_progressive_images ep w p b out)
          = Inl (Exception (lit ''Failed to generate image 2''))
        \<longleftrightarrow> \<not> list_ex is_image_call (resp_output r2)"
    using stage2_failure_iff [where ep = ep, OF R] by blast
next
  assume "ep (calls w) (stage1_request (b64encode data) b) = Inr r1 \<and>
     list_ex is_image_call (resp_output r1) \<and>
     ep (calls w @ [stage1_request (b64encode data) b]) (stage2_request (resp_id r1) b) = Inr r2 \<and>
     list_ex is_image_call (resp_output r2) \<and>
     ep (calls w @ [stage1_request (b64encode data) b, stage2_request (resp_id r1) b])
        (stage3_request (resp_id r2) b) = Inr r3"
  then show "fst (generate_progressive_images ep w p b out)
          = Inl (Exception (lit ''Failed to generate image 3''))
        \<longleftrightarrow> \<not> list_ex is_image_call (resp_output r3)"
    using stage3_failure_iff [where ep = ep, OF R] by blast
next
  show "is_image_call item \<longleftrightarrow>
       item_type item = Some (PyStr (lit ''image_generation_call'')) \<and>
       (\<exists>v. item_result item = Some v)"
    by (auto simp: is_image_call_def)
qed


text \<open>
  An instance: a first response with no item fails the run at stage 1.
\<close>

theorem stage_failure_iff_no_image_item_witness:
  "fst (generate_progressive_images (endpoint_seq [Inr (reply ''resp_1'' [])])
          world0 (lit ''me.jpg'') (lit ''Beagle'') None)
     = Inl (Exception (lit ''Failed to generate image 1''))"
  using stage_failure_iff_no_image_item [OF read_world0,
      of "endpoint_seq [Inr (reply ''resp_1'' [])]" "lit ''Beagle''" "reply ''resp_1'' []" None]
  by (simp add: calls_world0 endpoint_seq_def reply_def)

lemma b64decode_empty: "b64decode (PyStr []) = Inr []"
  by (simp add: b64decode_def)

lemma lit_names_distinct:
  "lit ''image1_transition.png'' \<noteq> lit ''me.jpg''"
  "lit ''image2_transition.png'' \<noteq> lit ''me.jpg''"
  "lit ''image3_final_dog.png'' \<noteq> lit ''me.jpg''"
  "lit ''image1_transition.png'' \<noteq> lit ''image2_transition.png''"
  "lit ''image1_transition.png'' \<noteq> lit ''image3_final_dog.png''"
  "lit ''image2_transition.png'' \<noteq> lit ''image3_final_dog.png''"
  by (simp_all add: lit_def)

text \<open>
  C2 as stated: every response has one image-generation item whose result is the empty
  string, so no response has an item with a non-empty payload; no stage failure is
  raised and the run returns three empty payloads.
\<close>

theorem empty_payload_passes_counterexample:
  "endpoint_seq [Inr (reply ''resp_1'' [image_item (PyStr [])]),
                 Inr (reply ''resp_2'' [image_item (PyStr [])]),
                 Inr (reply ''resp_3'' [image_item (PyStr [])])]
     [] (stage1_request (b64encode [1, 2, 3]) (lit ''Beagle''))
     = Inr (reply ''resp_1'' [image_item (PyStr [])]) \<and>
   \<not> list_ex carries_nonempty_result (resp_output (reply ''resp_1'' [image_item (PyStr [])])) \<and>
   fst (generate_progressive_images
     (endpoint_seq [Inr (reply ''resp_1'' [image_item (PyStr [])]),
                    Inr (reply ''resp_2'' [image_item (PyStr [])]),
                    Inr (reply ''resp_3'' [image_item (PyStr [])])])
     world0 (lit ''me.jpg'') (lit ''Beagle'') None) =
     Inr [(lit ''image1_transition.png'', PyStr []),
          (lit ''image2_transition.png'', PyStr []),
          (lit ''image3_final_dog.png'', PyStr [])]"
proof -
  let ?ep = "endpoint_seq [Inr (reply ''resp_1'' [image_item (PyStr [])]),
                 Inr (reply ''resp_2'' [image_item (PyStr [])]),
                 Inr (reply ''resp_3'' [image_item (PyStr [])])]"
  have t: "transform ?ep world0 (lit ''me.jpg'') (lit ''Beagle'') =
    (Inr [(lit ''image1_transition.png'', PyStr []),
          (lit ''image2_transition.png'', PyStr []),
          (lit ''image3_final_dog.png'', PyStr [])],
     world0\<lparr>calls := calls world0 @ [stage1_request (b64encode [1, 2, 3]) (lit ''Beagle''),
        stage2_request (resp_id (reply ''resp_1'' [image_item (PyStr [])])) (lit ''Beagle''),
        stage3_request (resp_id (reply ''resp_2'' [image_item (PyStr [])]))
          (lit ''Beagle'')]\<rparr>)"
    by (rule transform_success [OF read_world0, where ?vs1.0 = "[]" and ?vs2.0 = "[]"
          and ?vs3.0 = "[]" and ?r3.0 = "reply ''resp_3'' [image_item (PyStr [])]"])
       (simp_all add: calls_world0 endpoint_seq_def image_results_reply_one)
  have "fst (generate_progressive_images ?ep world0 (lit ''me.jpg'') (lit ''Beagle'') None) =
     Inr [(lit ''image1_transition.png'', PyStr []),
          (lit ''image2_transition.png'', PyStr []),
          (lit ''image3_final_dog.png'', PyStr [])]"
    unfolding generate_transform_ok [OF t]
    by (simp add: persist_def write_image_def open_wb_def b64decode_empty world0_def
        lit_names_distinct)
  then show ?thesis
    by (simp add: endpoint_seq_def carries_nonempty_result_def reply_def image_item_def)
qed

section \<open>Requests and manifest of a successful run\<close>







lemma endpoint_ok_answers:
  "endpoint_ok [] q = Inr reply1"
  "endpoint_ok [q1] q = Inr reply2"
  "endpoint_ok [q1, q2] q = Inr reply3"
  by (simp_all add: endpoint_ok_def endpoint_seq_def)


lemma resp_id_replies:
  "resp_id reply1 = lit ''resp_1''" "resp_id reply2 = lit ''resp_2''"
  by (simp_all add: reply1_def reply2_def reply_def)







lemma image_results_first:
  assumes "resp_output r = pre @ it # post"
    and "\<not> list_ex is_image_call pre"
    and "item_type it = Some (PyStr (lit ''image_generation_call''))"
    and "item_result it = Some v"
  shows "image_results r = v # map (\<lambda>out. the (item_result out)) (filter is_image_call post)"
proof -
  have "filter is_image_call pre = []"
    using assms(2) by (simp add: list_ex_iff filter_empty_conv)
  moreover have "is_image_call it"
    using assms(3,4) by (simp add: is_image_call_def)
  ultimately show ?thesis
    using assms(1,4) by (simp add: image_results_def)
qed

text \<open>
  C10. In each stage's response, let the first item of type \<^verbatim>\<open>image_generation_call\<close>
  with a \<^verbatim>\<open>result\<close> attribute be preceded by any items that do not match and followed
  by any items at all, matching ones included. The payload of the stage is the result
  of that first item; what follows it has no influence.
\<close>

theorem first_image_item_is_used:
  assumes R: "read_file w p = Inr data"
    and E1: "ep (calls w) (stage1_request (b64encode data) b) = Inr r1"
    and O1: "resp_output r1 = pre1 @ it1 # post1" "\<not> list_ex is_image_call pre1"
      "item_type it1 = Some (PyStr (lit ''image_generation_call''))" "item_result it1 = Some v1"
    and E2: "ep (calls w @ [stage1_request (b64encode data) b]) (stage2_request (resp_id r1) b)
               = Inr r2"
    and O2: "resp_output r2 = pre2 @ it2 # post2" "\<not> list_ex is_image_call pre2"
      "item_type it2 = Some (PyStr (lit ''image_generation_call''))" "item_result it2 = Some v2"
    and E3: "ep (calls w @ [stage1_request (b64encode data) b, stage2_request (resp_id r1) b])
               (stage3_request (resp_id r2) b) = Inr r3"
    and O3: "resp_output r3 = pre3 @ it3 # post3" "\<not> list_ex is_image_call pre3"
      "item_type it3 = Some (PyStr (lit ''image_generation_call''))" "item_result it3 = Some v3"
  shows "fst (transform ep w p b) =
     Inr [(lit ''image1_transition.png'', v1),
          (lit ''image2_transition.png'', v2),
          (lit ''image3_final_dog.png'', v3)]"
  by (simp add: transform_success [where ep = ep, OF R E1 image_results_first [OF O1]
        E2 image_results_first [OF O2] E3 image_results_first [OF O3]])

text \<open>
  An instance: each response of \<open>endpoint_ok\<close> has a reasoning item and then two
  image-generation items; the first one's payload is taken.
\<close>

theorem first_image_item_is_used_witness:
  "fst (transform endpoint_ok world0 (lit ''me.jpg'') (lit ''Beagle'')) =
     Inr [(lit ''image1_transition.png'', PyStr (lit ''QQ=='')),
          (lit ''image2_transition.png'', PyStr (lit ''Qw=='')),
          (lit ''image3_final_dog.png'', PyStr (lit ''RQ==''))] \<and>
   resp_output reply1 =
     [reasoning_item, image_item (PyStr (lit ''QQ=='')), image_item (PyStr (lit ''Qg==''))] \<and>
   is_image_call (image_item (PyStr (lit ''Qg=='')))"
proof -
  have "fst (transform endpoint_ok world0 (lit ''me.jpg'') (lit ''Beagle'')) =
     Inr [(lit ''image1_transition.png'', PyStr (lit ''QQ=='')),
          (lit ''image2_transition.png'', PyStr (lit ''Qw=='')),
          (lit ''image3_final_dog.png'', PyStr (lit ''RQ==''))]"
    by (rule first_image_item_is_used [where ep = endpoint_ok and ?r1.0 = reply1
          and ?r2.0 = reply2 and ?r3.0 = reply3
          and ?pre1.0 = "[reasoning_item]" and ?pre2.0 = "[reasoning_item]"
          and ?pre3.0 = "[reasoning_item]"
          and ?it1.0 = "image_item (PyStr (lit ''QQ==''))"
          and ?it2.0 = "image_item (PyStr (lit ''Qw==''))"
          and ?it3.0 = "image_item (PyStr (lit ''RQ==''))"
          and ?post1.0 = "[image_item (PyStr (lit ''Qg==''))]"
          and ?post2.0 = "[image_item (PyStr (lit ''RA==''))]"
          and ?post3.0 = "[image_item (PyStr (lit ''Rg==''))]", OF read_world0])
       (simp_all add: calls_world0 endpoint_ok_answers resp_id_replies reply1_def reply2_def
          reply3_def reply_def image_item_def reasoning_item_def is_image_call_def)
  then show ?thesis
    by (simp add: reply1_def reply_def is_image_call_image_item)
qed

section \<open>Persistence\<close>















section \<open>Classification failures\<close>

text \<open>
  C9, amended. \<open>analyze_dog_breed\<close> of \<^verbatim>\<open>generate_transformation.py\<close>, the one the
  application imports: when reading the file raises, no request is issued, and when the
  single request raises, it is not repeated; in both cases the function raises an
  exception whose message is "Error analyzing dog breed: " followed by the message of
  the underlying failure.
\<close>

theorem analyze_dog_breed_wraps_failure:
  "(read_file w p = Inl e \<longrightarrow>
      analyze_dog_breed ep w p =
        (Inl (Exception (lit ''Error analyzing dog breed: '' @ str_exn e)), w)) \<and>
   (read_file w p = Inr data \<and> ep (calls w) (classify_request (b64encode data)) = Inl m \<longrightarrow>
      analyze_dog_breed ep w p =
        (Inl (Exception (lit ''Error analyzing dog breed: '' @ m)),
         w\<lparr>calls := calls w @ [classify_request (b64encode data)]\<rparr>))"
  by (simp add: analyze_dog_breed_def responses_create_def)

text \<open>
  An instance: the endpoint rejects the credentials.
\<close>

theorem analyze_dog_breed_wraps_failure_witness:
  "analyze_dog_breed (endpoint_seq [Inl (lit ''401 Unauthorized'')]) world0 (lit ''me.jpg'') =
     (Inl (Exception (lit ''Error analyzing dog breed: '' @ lit ''401 Unauthorized'')),
      world0\<lparr>calls := [classify_request (b64encode [1, 2, 3])]\<rparr>)"
  using analyze_dog_breed_wraps_failure
    [of world0 "lit ''me.jpg''" _ "endpoint_seq [Inl (lit ''401 Unauthorized'')]" "[1, 2, 3]"
       "lit ''401 Unauthorized''"]
  by (simp add: read_world0 calls_world0 endpoint_seq_def)

text \<open>
  C9 as stated covers \<open>analyze_dog_breed\<close> of \<^verbatim>\<open>analyze_dog_breed.py\<close> too. There the
  remote call raises and the function returns the text "Error: 401 Unauthorized" as a
  normal value.
\<close>

theorem standalone_analyze_returns_error_text_counterexample:
  "endpoint_seq [Inl (lit ''401 Unauthorized'')] (calls world0)
      (classify_request (b64encode [1, 2, 3])) = Inl (lit ''401 Unauthorized'') \<and>
   analyze_dog_breed_standalone (endpoint_seq [Inl (lit ''401 Unauthorized'')]) world0
      (lit ''me.jpg'') =
     (Inr (lit ''Error: '' @ lit ''401 Unauthorized''),
      world0\<lparr>calls := [classify_request (b64encode [1, 2, 3])]\<rparr>)"
  by (simp add: analyze_dog_breed_standalone_def responses_create_def read_world0 calls_world0
      endpoint_seq_def)

end
